theory Spec2Isabelle
  imports Main
begin

section \<open>Values, exceptions and the environment\<close>

text \<open>
  The server (\<^verbatim>\<open>src/server.py\<close>) exchanges JSON documents with its clients and keeps
  them as Python values. \<open>json\<close> is the Python value a decoded document is made of.
  Numbers with a fraction or an exponent decode to Python floats; they are left out.
\<close>

datatype json =
    JNull
  | JBool bool
  | JInt int
  | JStr string
  | JList "json list"
  | JObj "(string \<times> json) list"

text \<open>Python's truth value of an object: what \<^verbatim>\<open>if not x\<close> tests.\<close>

fun truthy :: "json \<Rightarrow> bool" where
  "truthy JNull = False"
| "truthy (JBool b) = b"
| "truthy (JInt i) = (i \<noteq> 0)"
| "truthy (JStr s) = (s \<noteq> [])"
| "truthy (JList xs) = (xs \<noteq> [])"
| "truthy (JObj kvs) = (kvs \<noteq> [])"

text \<open>The exceptions the modelled code can meet, by class.\<close>

datatype exn =
    TypeError
  | KeyError
  | AttributeError
  | JSONDecodeError
  | ConnectionClosed
  | RuntimeError
  | GLibError string
  | OtherError string

text \<open>\<^verbatim>\<open>d.get(k)\<close> and \<^verbatim>\<open>d.get(k, default)\<close>: only a dict has the method.\<close>

fun py_get :: "json \<Rightarrow> string \<Rightarrow> json \<Rightarrow> exn + json" where
  "py_get (JObj kvs) k dflt = (case map_of kvs k of None \<Rightarrow> Inr dflt | Some v \<Rightarrow> Inr v)"
| "py_get _ k dflt = Inl AttributeError"

text \<open>\<^verbatim>\<open>k in d\<close> for a dict \<open>d\<close> built by the code itself.\<close>

definition has_key :: "string \<Rightarrow> json \<Rightarrow> bool" where
  "has_key k d = (case d of JObj kvs \<Rightarrow> map_of kvs k \<noteq> None | _ \<Rightarrow> False)"

text \<open>
  The keys of the registry dict. Python compares keys by \<^verbatim>\<open>==\<close> and hash: \<^verbatim>\<open>True\<close> and
  \<^verbatim>\<open>1\<close> are one key, lists and dicts are unhashable.
\<close>

datatype pykey = KNone | KInt int | KStr string

fun py_hash :: "json \<Rightarrow> exn + pykey" where
  "py_hash JNull = Inr KNone"
| "py_hash (JBool b) = Inr (KInt (if b then 1 else 0))"
| "py_hash (JInt i) = Inr (KInt i)"
| "py_hash (JStr s) = Inr (KStr s)"
| "py_hash (JList xs) = Inl TypeError"
| "py_hash (JObj kvs) = Inl TypeError"

text \<open>
  A dict keeps its items in insertion order, and keeps the key object that was inserted
  first. An item is (hashed key, key object, value).
\<close>

type_synonym 'v pydict = "(pykey \<times> json \<times> 'v) list"

definition dict_contains :: "json \<Rightarrow> 'v pydict \<Rightarrow> exn + bool" where
  "dict_contains k d = (case py_hash k of Inl e \<Rightarrow> Inl e | Inr h \<Rightarrow> Inr (map_of d h \<noteq> None))"

definition dict_getitem :: "'v pydict \<Rightarrow> json \<Rightarrow> exn + 'v" where
  "dict_getitem d k =
     (case py_hash k of Inl e \<Rightarrow> Inl e
      | Inr h \<Rightarrow> (case map_of d h of None \<Rightarrow> Inl KeyError | Some (k0, v) \<Rightarrow> Inr v))"

fun set_item :: "pykey \<Rightarrow> json \<Rightarrow> 'v \<Rightarrow> 'v pydict \<Rightarrow> 'v pydict" where
  "set_item h k v [] = [(h, k, v)]"
| "set_item h k v ((h0, k0, v0) # d) =
     (if h0 = h then (h0, k0, v) # d else (h0, k0, v0) # set_item h k v d)"

definition dict_setitem :: "'v pydict \<Rightarrow> json \<Rightarrow> 'v \<Rightarrow> exn + 'v pydict" where
  "dict_setitem d k v = (case py_hash k of Inl e \<Rightarrow> Inl e | Inr h \<Rightarrow> Inr (set_item h k v d))"

definition dict_delitem :: "'v pydict \<Rightarrow> json \<Rightarrow> exn + 'v pydict" where
  "dict_delitem d k =
     (case py_hash k of Inl e \<Rightarrow> Inl e
      | Inr h \<Rightarrow> (case map_of d h of None \<Rightarrow> Inl KeyError
                  | Some _ \<Rightarrow> Inr (filter (\<lambda>item. fst item \<noteq> h) d)))"

subsection \<open>The media engine and the runtime\<close>

text \<open>
  GStreamer is outside the repository. The model takes its answers from the environment
  and records every call the server makes. An engine object (a \<^verbatim>\<open>Gst.Pipeline\<close>), a bus
  and a bus watch are named by numbers.
\<close>

datatype gst_state = VOID_PENDING | NULL | READY | PAUSED | PLAYING

datatype state_change_return = FAILURE | SUCCESS | ASYNC | NO_PREROLL

datatype gst_message =
    ERROR string json
  | EOS
  | STATE_CHANGED nat gst_state gst_state gst_state
  | OTHER

datatype engine_call =
    ParseLaunch string
  | SetName nat json
  | GetBus nat
  | AddWatch nat
  | SetState nat gst_state
  | RemoveWatch nat nat
  | GetState nat
  | QueryPosition nat

text \<open>
  The environment of one step: the clock, Python's \<^verbatim>\<open>str()\<close>, the outcome of a send to a
  client, the simulated frame counters (float arithmetic on the position, lines 176 to
  183, is not embedded: \<open>sim_frames position_ns\<close> is the pair
  \<^verbatim>\<open>(int(position * 30), int(position * 0.5))\<close>), and the engine's answers.
\<close>

record env =
  now_ms :: int
  py_str :: "json \<Rightarrow> string"
  exn_str :: "exn \<Rightarrow> string"
  send_result :: "nat \<Rightarrow> json \<Rightarrow> exn option"
  sim_frames :: "int \<Rightarrow> int \<times> int"
  parse_launch :: "string \<Rightarrow> exn + nat"
  set_name :: "nat \<Rightarrow> json \<Rightarrow> exn option"
  get_bus :: "nat \<Rightarrow> exn + nat"
  add_watch :: "nat \<Rightarrow> exn + nat"
  set_state :: "nat \<Rightarrow> gst_state \<Rightarrow> exn + state_change_return"
  remove_watch :: "nat \<Rightarrow> nat \<Rightarrow> exn option"
  get_state :: "nat \<Rightarrow> exn + gst_state"
  query_position :: "nat \<Rightarrow> exn + (bool \<times> int)"

text \<open>\<^verbatim>\<open>PIPELINE_STATES.get(state, "UNKNOWN")\<close>.\<close>

fun PIPELINE_STATES :: "gst_state \<Rightarrow> string" where
  "PIPELINE_STATES NULL = ''NULL''"
| "PIPELINE_STATES READY = ''READY''"
| "PIPELINE_STATES PAUSED = ''PAUSED''"
| "PIPELINE_STATES PLAYING = ''PLAYING''"
| "PIPELINE_STATES VOID_PENDING = ''UNKNOWN''"

section \<open>GstreamerPipeline\<close>

text \<open>
  The object of class \<^verbatim>\<open>GstreamerPipeline\<close>. \<open>pipeline\<close> is the engine object, \<open>None\<close>
  until \<^verbatim>\<open>create\<close>; \<open>bus_watch_id\<close> is the identifier \<^verbatim>\<open>add_watch\<close> returned.
\<close>

record GstreamerPipeline =
  id' :: json
  description :: json
  elements :: json
  pipeline :: "nat option"
  stats :: json
  error :: "string option"
  bus_watch_id :: "nat option"

definition init :: "json \<Rightarrow> json \<Rightarrow> json \<Rightarrow> GstreamerPipeline" where
  "init pipeline_id descr elems =
     \<lparr> id' = pipeline_id, description = descr, elements = elems, pipeline = None,
       stats = JObj [], error = None, bus_watch_id = None \<rparr>"

text \<open>
  \<^verbatim>\<open>el_str += f" {prop_name}={prop_value}"\<close> for each property in turn. A string grows;
  a list is extended by the characters; anything else raises.
\<close>

fun add_properties :: "env \<Rightarrow> json \<Rightarrow> (string \<times> json) list \<Rightarrow> exn + json" where
  "add_properties ev el_str [] = Inr el_str"
| "add_properties ev el_str ((prop_name, prop_value) # ps) =
     (case el_str of
        JStr s \<Rightarrow> add_properties ev (JStr (s @ '' '' @ prop_name @ ''='' @ py_str ev prop_value)) ps
      | JList l \<Rightarrow>
          add_properties ev
            (JList (l @ map (\<lambda>c. JStr [c]) ('' '' @ prop_name @ ''='' @ py_str ev prop_value))) ps
      | _ \<Rightarrow> Inl TypeError)"

text \<open>The body of the loop of \<^verbatim>\<open>build_pipeline_string\<close> for one element.\<close>

fun element_string :: "env \<Rightarrow> json \<Rightarrow> exn + json" where
  "element_string ev (JObj kvs) =
     (case map_of kvs ''type'' of
        None \<Rightarrow> Inl KeyError
      | Some el_str \<Rightarrow>
          (case map_of kvs ''properties'' of
             None \<Rightarrow> Inr el_str
           | Some (JObj ps) \<Rightarrow> add_properties ev el_str ps
           | Some _ \<Rightarrow> Inl AttributeError))"
| "element_string ev _ = Inl TypeError"

fun element_strings :: "env \<Rightarrow> json list \<Rightarrow> exn + json list" where
  "element_strings ev [] = Inr []"
| "element_strings ev (element # rest) =
     (case element_string ev element of
        Inl e \<Rightarrow> Inl e
      | Inr el_str \<Rightarrow>
          (case element_strings ev rest of Inl e \<Rightarrow> Inl e | Inr strs \<Rightarrow> Inr (el_str # strs)))"

text \<open>\<^verbatim>\<open>" ! ".join(pipeline_string)\<close>: every item must be a string.\<close>

fun join_bang :: "json list \<Rightarrow> exn + string" where
  "join_bang [] = Inr []"
| "join_bang [JStr s] = Inr s"
| "join_bang (JStr s # rest) =
     (case join_bang rest of Inl e \<Rightarrow> Inl e | Inr t \<Rightarrow> Inr (s @ '' ! '' @ t))"
| "join_bang (_ # rest) = Inl TypeError"

text \<open>
  \<^verbatim>\<open>build_pipeline_string\<close>. Iterating a string gives its characters and iterating a dict
  its keys, and \<^verbatim>\<open>element['type']\<close> on a string raises; the other values are not iterable.
\<close>

fun build_pipeline_string :: "env \<Rightarrow> json \<Rightarrow> exn + string" where
  "build_pipeline_string ev (JList xs) =
     (case element_strings ev xs of Inl e \<Rightarrow> Inl e | Inr strs \<Rightarrow> join_bang strs)"
| "build_pipeline_string ev (JStr s) = (if s = [] then Inr [] else Inl TypeError)"
| "build_pipeline_string ev (JObj kvs) = (if kvs = [] then Inr [] else Inl TypeError)"
| "build_pipeline_string ev _ = Inl TypeError"

text \<open>
  The \<^verbatim>\<open>except\<close> branch of \<^verbatim>\<open>create\<close>: the error is kept on the object and the result
  carries \<^verbatim>\<open>errorCode\<close>.
\<close>

definition creation_failed ::
  "env \<Rightarrow> exn \<Rightarrow> GstreamerPipeline \<Rightarrow> engine_call list
     \<Rightarrow> json \<times> GstreamerPipeline \<times> engine_call list" where
  "creation_failed ev e self calls =
     (JObj [(''id'', id' self),
            (''errorCode'', JStr ''creation-failed''),
            (''errorMessage'', JStr (exn_str ev e))],
      self\<lparr>error := Some (exn_str ev e)\<rparr>,
      calls)"

text \<open>
  \<^verbatim>\<open>create\<close> (lines 65 to 90). The result is the returned dict, the object after the
  call, and the engine calls made, in order.
\<close>

definition create ::
  "env \<Rightarrow> GstreamerPipeline \<Rightarrow> json \<times> GstreamerPipeline \<times> engine_call list" where
  "create ev self =
     (case build_pipeline_string ev (elements self) of
        Inl e \<Rightarrow> creation_failed ev e self []
      | Inr pipeline_string \<Rightarrow>
          (case parse_launch ev pipeline_string of
             Inl e \<Rightarrow> creation_failed ev e self [ParseLaunch pipeline_string]
           | Inr p \<Rightarrow>
               (let self1 = self\<lparr>pipeline := Some p\<rparr> in
                case set_name ev p (id' self) of
                  Some e \<Rightarrow>
                    creation_failed ev e self1 [ParseLaunch pipeline_string, SetName p (id' self)]
                | None \<Rightarrow>
                    (case get_bus ev p of
                       Inl e \<Rightarrow>
                         creation_failed ev e self1
                           [ParseLaunch pipeline_string, SetName p (id' self), GetBus p]
                     | Inr bus \<Rightarrow>
                         (case add_watch ev bus of
                            Inl e \<Rightarrow>
                              creation_failed ev e self1
                                [ParseLaunch pipeline_string, SetName p (id' self), GetBus p,
                                 AddWatch bus]
                          | Inr w \<Rightarrow>
                              (JObj [(''id'', id' self),
                                     (''description'', description self),
                                     (''state'', JStr ''NULL''),
                                     (''elements'', elements self)],
                               self1\<lparr>bus_watch_id := Some w\<rparr>,
                               [ParseLaunch pipeline_string, SetName p (id' self), GetBus p,
                                AddWatch bus]))))))"

text \<open>\<^verbatim>\<open>start\<close> (lines 92 to 115): the result, or the exception of the engine call, and the calls.\<close>

definition start :: "env \<Rightarrow> GstreamerPipeline \<Rightarrow> (exn + json) \<times> engine_call list" where
  "start ev self =
     (case pipeline self of
        None \<Rightarrow>
          (Inr (JObj [(''id'', id' self),
                      (''errorCode'', JStr ''not-created''),
                      (''errorMessage'', JStr ''Pipeline not created'')]), [])
      | Some p \<Rightarrow>
          (case set_state ev p PLAYING of
             Inl e \<Rightarrow> (Inl e, [SetState p PLAYING])
           | Inr ret \<Rightarrow>
               if ret = FAILURE then
                 (Inr (JObj [(''id'', id' self),
                             (''errorCode'', JStr ''start-failed''),
                             (''errorMessage'', JStr ''Failed to start pipeline'')]),
                  [SetState p PLAYING])
               else
                 (Inr (JObj [(''id'', id' self),
                             (''state'', JStr ''PLAYING''),
                             (''message'', JStr ''Pipeline started'')]),
                  [SetState p PLAYING])))"

text \<open>\<^verbatim>\<open>stop\<close> (lines 117 to 140).\<close>

definition stop :: "env \<Rightarrow> GstreamerPipeline \<Rightarrow> (exn + json) \<times> engine_call list" where
  "stop ev self =
     (case pipeline self of
        None \<Rightarrow>
          (Inr (JObj [(''id'', id' self),
                      (''errorCode'', JStr ''not-created''),
                      (''errorMessage'', JStr ''Pipeline not created'')]), [])
      | Some p \<Rightarrow>
          (case set_state ev p PAUSED of
             Inl e \<Rightarrow> (Inl e, [SetState p PAUSED])
           | Inr ret \<Rightarrow>
               if ret = FAILURE then
                 (Inr (JObj [(''id'', id' self),
                             (''errorCode'', JStr ''stop-failed''),
                             (''errorMessage'', JStr ''Failed to pause pipeline'')]),
                  [SetState p PAUSED])
               else
                 (Inr (JObj [(''id'', id' self),
                             (''state'', JStr ''PAUSED''),
                             (''message'', JStr ''Pipeline paused'')]),
                  [SetState p PAUSED])))"

text \<open>
  \<^verbatim>\<open>delete\<close> (lines 142 to 157). \<^verbatim>\<open>if self.bus_watch_id\<close> is false for \<^verbatim>\<open>None\<close> and for 0.
\<close>

definition deleted :: "GstreamerPipeline \<Rightarrow> json" where
  "deleted self = JObj [(''id'', id' self), (''message'', JStr ''Pipeline deleted'')]"

definition delete ::
  "env \<Rightarrow> GstreamerPipeline \<Rightarrow> (exn + json) \<times> GstreamerPipeline \<times> engine_call list" where
  "delete ev self =
     (case pipeline self of
        None \<Rightarrow> (Inr (deleted self), self, [])
      | Some p \<Rightarrow>
          (case set_state ev p NULL of
             Inl e \<Rightarrow> (Inl e, self, [SetState p NULL])
           | Inr ret \<Rightarrow>
               (case bus_watch_id self of
                  None \<Rightarrow> (Inr (deleted self), self\<lparr>pipeline := None\<rparr>, [SetState p NULL])
                | Some w \<Rightarrow>
                    if w = 0 then
                      (Inr (deleted self), self\<lparr>pipeline := None\<rparr>, [SetState p NULL])
                    else
                      (case get_bus ev p of
                         Inl e \<Rightarrow> (Inl e, self, [SetState p NULL, GetBus p])
                       | Inr bus \<Rightarrow>
                           (case remove_watch ev bus w of
                              Some e \<Rightarrow>
                                (Inl e, self, [SetState p NULL, GetBus p, RemoveWatch bus w])
                            | None \<Rightarrow>
                                (Inr (deleted self),
                                 self\<lparr>bus_watch_id := None, pipeline := None\<rparr>,
                                 [SetState p NULL, GetBus p, RemoveWatch bus w]))))))"

text \<open>
  \<^verbatim>\<open>get_status\<close> (lines 159 to 191). Without a position the counters are computed from
  the integer 0: \<^verbatim>\<open>100 + int(0 * 30)\<close> and \<^verbatim>\<open>int(0 * 0.5)\<close>.
\<close>

definition compute_stats :: "env \<Rightarrow> bool \<times> int \<Rightarrow> json" where
  "compute_stats ev q =
     (let (success, position_ns) = q;
          (received, dropped) = (if success then sim_frames ev position_ns else (0, 0))
      in JObj [(''bufferHealth'', JInt 80),
               (''bitrate'', JInt 2500000),
               (''framesReceived'', JInt (100 + received)),
               (''framesDropped'', JInt dropped),
               (''latency'', JInt 150)])"

definition get_status ::
  "env \<Rightarrow> GstreamerPipeline \<Rightarrow> (exn + json) \<times> GstreamerPipeline \<times> engine_call list" where
  "get_status ev self =
     (case pipeline self of
        None \<Rightarrow>
          (Inr (JObj [(''id'', id' self), (''state'', JStr ''NULL''), (''stats'', JObj [])]),
           self, [])
      | Some p \<Rightarrow>
          (case get_state ev p of
             Inl e \<Rightarrow> (Inl e, self, [GetState p])
           | Inr st \<Rightarrow>
               (case query_position ev p of
                  Inl e \<Rightarrow> (Inl e, self, [GetState p, QueryPosition p])
                | Inr q \<Rightarrow>
                    (Inr (JObj [(''id'', id' self),
                                (''state'', JStr (PIPELINE_STATES st)),
                                (''stats'', compute_stats ev q)]),
                     self\<lparr>stats := compute_stats ev q\<rparr>,
                     [GetState p, QueryPosition p]))))"

text \<open>
  \<^verbatim>\<open>asyncio.get_event_loop()\<close> as the calling thread sees it. The thread that runs
  \<^verbatim>\<open>asyncio.run(main())\<close> (line 544) has the event loop; in a thread where no loop was ever
  set the call raises \<^verbatim>\<open>RuntimeError\<close>. The server starts one such thread, for the GLib
  main loop (lines 461 to 465 and 493 to 495).
\<close>

datatype thread = EventLoopThread | GLibThread

definition get_event_loop :: "thread \<Rightarrow> exn + unit" where
  "get_event_loop t = (case t of EventLoopThread \<Rightarrow> Inr () | GLibThread \<Rightarrow> Inl RuntimeError)"

text \<open>
  \<^verbatim>\<open>asyncio.run_coroutine_threadsafe(broadcast_message({...}), asyncio.get_event_loop())\<close>
  called in thread \<open>t\<close>. The arguments are evaluated in order: the coroutine is created from
  the message, then the loop is asked for. When that raises, nothing is handed to the
  event loop and the exception leaves \<^verbatim>\<open>bus_callback\<close>; otherwise the callback goes on to
  \<^verbatim>\<open>return True\<close>.
\<close>

definition hand_over :: "thread \<Rightarrow> exn + bool" where
  "hand_over t = (case get_event_loop t of Inl e \<Rightarrow> Inl e | Inr loop \<Rightarrow> Inr True)"

text \<open>
  \<^verbatim>\<open>bus_callback\<close> (lines 193 to 248) called in thread \<open>t\<close>: what it returns or raises, the
  object after the call, and the message of the \<^verbatim>\<open>broadcast_message\<close> coroutine it
  created, if any; the coroutine has been handed to the event loop when the call
  returned. An engine \<open>ERROR err_message debug\<close> carries what \<^verbatim>\<open>parse_error\<close> returns;
  \<open>STATE_CHANGED src old new pending\<close> carries its source object.
\<close>

definition bus_callback ::
  "thread \<Rightarrow> GstreamerPipeline \<Rightarrow> gst_message
     \<Rightarrow> (exn + bool) \<times> GstreamerPipeline \<times> (string \<times> json) list option" where
  "bus_callback t self message =
     (case message of
        ERROR err_message debug \<Rightarrow>
          (hand_over t,
           self\<lparr>error := Some err_message\<rparr>,
           Some [(''type'', JStr ''pipelineError''),
                 (''payload'', JObj [(''id'', id' self),
                                     (''errorCode'', JStr ''gst-error''),
                                     (''errorMessage'', JStr err_message),
                                     (''details'', debug)])])
      | EOS \<Rightarrow>
          (hand_over t,
           self,
           Some [(''type'', JStr ''pipelineStateChanged''),
                 (''payload'', JObj [(''id'', id' self),
                                     (''state'', JStr ''NULL''),
                                     (''message'', JStr ''End of stream'')])])
      | STATE_CHANGED src old_state new_state pending_state \<Rightarrow>
          if Some src = pipeline self then
            (hand_over t,
             self,
             Some [(''type'', JStr ''pipelineStateChanged''),
                   (''payload'',
                    JObj [(''id'', id' self),
                          (''state'', JStr (PIPELINE_STATES new_state)),
                          (''message'',
                           JStr (''State changed from '' @ PIPELINE_STATES old_state
                                 @ '' to '' @ PIPELINE_STATES new_state))])])
          else (Inr True, self, None)
      | OTHER \<Rightarrow> (Inr True, self, None))"

section \<open>The server state and broadcast\<close>

text \<open>
  What the server does to the outside is a trace: the engine calls, the sends to clients
  (a send is recorded when it is attempted; \<open>send_result\<close> says whether it raised), and
  the sleeps of the telemetry loop. Log lines are left out.
\<close>

datatype event = Engine engine_call | Send nat json | Sleep nat

text \<open>
  The globals \<^verbatim>\<open>pipelines\<close> and \<^verbatim>\<open>clients\<close>. A client is a number; the set of clients is
  the list of its members in the order Python iterates over it.
\<close>

record state =
  pipelines :: "GstreamerPipeline pydict"
  clients :: "nat list"
  trace :: "event list"

text \<open>\<^verbatim>\<open>d[k] = v\<close> on a dict with string keys.\<close>

fun set_key :: "string \<Rightarrow> json \<Rightarrow> (string \<times> json) list \<Rightarrow> (string \<times> json) list" where
  "set_key k v [] = [(k, v)]"
| "set_key k v ((k0, v0) # kvs) =
     (if k0 = k then (k0, v) # kvs else (k0, v0) # set_key k v kvs)"

text \<open>
  \<^verbatim>\<open>asyncio.gather(*aws, return_exceptions=...)\<close> on the outcomes of the awaitables, all
  of which run: with \<^verbatim>\<open>return_exceptions\<close> the exceptions are returned among the results,
  without it the first one is raised to the caller.
\<close>

definition gather :: "bool \<Rightarrow> exn option list \<Rightarrow> exn + exn option list" where
  "gather return_exceptions results =
     (if return_exceptions then Inr results
      else (case List.find (\<lambda>r. r \<noteq> None) results of
              Some (Some e) \<Rightarrow> Inl e
            | _ \<Rightarrow> Inr results))"

text \<open>
  \<^verbatim>\<open>broadcast_message\<close> (lines 250 to 258). The message is a dict, given by its items;
  the second component of the result is the dict after the call, which the callee
  changes in place. \<^verbatim>\<open>json.dumps\<close> is the identity on \<open>json\<close>.
\<close>

definition broadcast_message ::
  "env \<Rightarrow> (string \<times> json) list \<Rightarrow> state \<Rightarrow> (exn + unit) \<times> (string \<times> json) list \<times> state" where
  "broadcast_message ev message st =
     (if clients st \<noteq> [] then
        (let message1 = set_key ''timestamp'' (JInt (now_ms ev)) message;
             encoded_message = JObj message1;
             st1 = st\<lparr>trace := trace st @ map (\<lambda>client. Send client encoded_message) (clients st)\<rparr>
         in (case gather True (map (\<lambda>client. send_result ev client encoded_message) (clients st)) of
               Inl e \<Rightarrow> (Inl e, message1, st1)
             | Inr results \<Rightarrow> (Inr (), message1, st1)))
      else (Inr (), message, st))"

text \<open>
  The engine posts a message on the bus of the pipeline registered under the key \<open>h\<close>.
  The bus watch is dispatched by the GLib main loop, so \<^verbatim>\<open>bus_callback\<close> runs in
  \<open>GLibThread\<close>. The result is what the callback returned or raised (nothing when no
  pipeline is registered under \<open>h\<close>), the message of the coroutine that was handed to the
  event loop, if one was, and the state, whose registered object is the one after the
  call.
\<close>

definition on_bus_message ::
  "pykey \<Rightarrow> gst_message \<Rightarrow> state
     \<Rightarrow> (exn + bool) option \<times> (string \<times> json) list option \<times> state" where
  "on_bus_message h message st =
     (case map_of (pipelines st) h of
        None \<Rightarrow> (None, None, st)
      | Some (k0, self) \<Rightarrow>
          (case bus_callback GLibThread self message of
             (r, self1, coroutine) \<Rightarrow>
               (Some r,
                (case r of Inl e \<Rightarrow> None | Inr b \<Rightarrow> coroutine),
                st\<lparr>pipelines := set_item h k0 self1 (pipelines st)\<rparr>)))"

text \<open>\<^verbatim>\<open>d[k]\<close> on a value, for a string key.\<close>

fun subscript :: "json \<Rightarrow> string \<Rightarrow> exn + json" where
  "subscript (JObj kvs) k = (case map_of kvs k of None \<Rightarrow> Inl KeyError | Some v \<Rightarrow> Inr v)"
| "subscript _ k = Inl TypeError"


section \<open>The protocol handler\<close>

text \<open>
  \<^verbatim>\<open>await websocket.send(json.dumps({...}))\<close> with the timestamp read from the clock. The
  send is the last statement of every branch of the handler and an exception it raises is
  caught by the handler's \<^verbatim>\<open>except Exception\<close>, so the state after it is the same either
  way.
\<close>

definition reply :: "env \<Rightarrow> nat \<Rightarrow> string \<Rightarrow> json \<Rightarrow> state \<Rightarrow> state" where
  "reply ev websocket message_type payload st =
     st\<lparr>trace := trace st @
          [Send websocket (JObj [(''type'', JStr message_type),
                                 (''payload'', payload),
                                 (''timestamp'', JInt (now_ms ev))])]\<rparr>"

definition not_found :: "json \<Rightarrow> json" where
  "not_found pipeline_id =
     JObj [(''id'', pipeline_id),
           (''errorCode'', JStr ''not-found''),
           (''errorMessage'', JStr ''Pipeline not found'')]"

text \<open>
  \<^verbatim>\<open>if not pipeline_id or pipeline_id not in pipelines\<close> followed by
  \<^verbatim>\<open>pipelines[pipeline_id]\<close>, as the three commands on an existing pipeline do:
  \<open>Inr None\<close> is the not-found branch, \<open>Inl\<close> an exception (an unhashable id).
\<close>

definition lookup_pipeline ::
  "GstreamerPipeline pydict \<Rightarrow> json \<Rightarrow> exn + GstreamerPipeline option" where
  "lookup_pipeline d pipeline_id =
     (if \<not> truthy pipeline_id then Inr None
      else (case dict_contains pipeline_id d of
              Inl e \<Rightarrow> Inl e
            | Inr found \<Rightarrow>
                if \<not> found then Inr None
                else (case dict_getitem d pipeline_id of
                        Inl e \<Rightarrow> Inl e
                      | Inr p \<Rightarrow> Inr (Some p))))"

text \<open>The object a method changed is the one the dict holds under the key.\<close>

definition put_back :: "'v pydict \<Rightarrow> json \<Rightarrow> 'v \<Rightarrow> 'v pydict" where
  "put_back d k v = (case dict_setitem d k v of Inl e \<Rightarrow> d | Inr d1 \<Rightarrow> d1)"

definition log_calls :: "engine_call list \<Rightarrow> state \<Rightarrow> state" where
  "log_calls calls st = st\<lparr>trace := trace st @ map Engine calls\<rparr>"

text \<open>The \<^verbatim>\<open>createPipeline\<close> branch (lines 312 to 353).\<close>

definition create_pipeline :: "env \<Rightarrow> nat \<Rightarrow> json \<Rightarrow> state \<Rightarrow> state" where
  "create_pipeline ev websocket payload st =
     (case py_get payload ''id'' (JStr (''pipeline-'' @ py_str ev (JInt (now_ms ev)))) of
        Inl e \<Rightarrow> st
      | Inr pipeline_id \<Rightarrow>
     (case py_get payload ''description'' (JStr (''Pipeline '' @ py_str ev pipeline_id)) of
        Inl e \<Rightarrow> st
      | Inr descr \<Rightarrow>
     (case py_get payload ''pipeline'' (JObj []) of
        Inl e \<Rightarrow> st
      | Inr pipeline_def \<Rightarrow>
     (case py_get pipeline_def ''elements'' (JList []) of
        Inl e \<Rightarrow> st
      | Inr elems \<Rightarrow>
          if \<not> truthy elems then
            reply ev websocket ''pipelineError''
              (JObj [(''id'', pipeline_id),
                     (''errorCode'', JStr ''invalid-pipeline''),
                     (''errorMessage'', JStr ''No pipeline elements provided'')]) st
          else
            (case create ev (init pipeline_id descr elems) of (result, p, calls) \<Rightarrow>
               if has_key ''errorCode'' result then
                 reply ev websocket ''pipelineError'' result (log_calls calls st)
               else
                 (case dict_setitem (pipelines st) pipeline_id p of
                    Inl e \<Rightarrow> log_calls calls st
                  | Inr d \<Rightarrow>
                      reply ev websocket ''pipelineCreated'' (JObj [(''pipeline'', result)])
                        ((log_calls calls st)\<lparr>pipelines := d\<rparr>)))))))"

text \<open>The \<^verbatim>\<open>startPipeline\<close> branch (lines 355 to 383).\<close>

definition start_pipeline :: "env \<Rightarrow> nat \<Rightarrow> json \<Rightarrow> state \<Rightarrow> state" where
  "start_pipeline ev websocket payload st =
     (case py_get payload ''id'' JNull of
        Inl e \<Rightarrow> st
      | Inr pipeline_id \<Rightarrow>
          (case lookup_pipeline (pipelines st) pipeline_id of
             Inl e \<Rightarrow> st
           | Inr None \<Rightarrow> reply ev websocket ''pipelineError'' (not_found pipeline_id) st
           | Inr (Some p) \<Rightarrow>
               (case start ev p of
                  (Inl e, calls) \<Rightarrow> log_calls calls st
                | (Inr result, calls) \<Rightarrow>
                    if has_key ''errorCode'' result then
                      reply ev websocket ''pipelineError'' result (log_calls calls st)
                    else
                      reply ev websocket ''pipelineStateChanged'' result (log_calls calls st))))"

text \<open>The \<^verbatim>\<open>stopPipeline\<close> branch (lines 385 to 413).\<close>

definition stop_pipeline :: "env \<Rightarrow> nat \<Rightarrow> json \<Rightarrow> state \<Rightarrow> state" where
  "stop_pipeline ev websocket payload st =
     (case py_get payload ''id'' JNull of
        Inl e \<Rightarrow> st
      | Inr pipeline_id \<Rightarrow>
          (case lookup_pipeline (pipelines st) pipeline_id of
             Inl e \<Rightarrow> st
           | Inr None \<Rightarrow> reply ev websocket ''pipelineError'' (not_found pipeline_id) st
           | Inr (Some p) \<Rightarrow>
               (case stop ev p of
                  (Inl e, calls) \<Rightarrow> log_calls calls st
                | (Inr result, calls) \<Rightarrow>
                    if has_key ''errorCode'' result then
                      reply ev websocket ''pipelineError'' result (log_calls calls st)
                    else
                      reply ev websocket ''pipelineStateChanged'' result (log_calls calls st))))"

text \<open>
  The \<^verbatim>\<open>deletePipeline\<close> branch (lines 415 to 437). When \<^verbatim>\<open>delete\<close> raises, the entry
  stays in the registry and nothing is sent.
\<close>

definition delete_pipeline :: "env \<Rightarrow> nat \<Rightarrow> json \<Rightarrow> state \<Rightarrow> state" where
  "delete_pipeline ev websocket payload st =
     (case py_get payload ''id'' JNull of
        Inl e \<Rightarrow> st
      | Inr pipeline_id \<Rightarrow>
          (case lookup_pipeline (pipelines st) pipeline_id of
             Inl e \<Rightarrow> st
           | Inr None \<Rightarrow> reply ev websocket ''pipelineError'' (not_found pipeline_id) st
           | Inr (Some p) \<Rightarrow>
               (case delete ev p of
                  (Inl e, p1, calls) \<Rightarrow>
                    (log_calls calls st)\<lparr>pipelines := put_back (pipelines st) pipeline_id p1\<rparr>
                | (Inr result, p1, calls) \<Rightarrow>
                    (case dict_delitem (put_back (pipelines st) pipeline_id p1) pipeline_id of
                       Inl e \<Rightarrow>
                         (log_calls calls st)\<lparr>pipelines := put_back (pipelines st) pipeline_id p1\<rparr>
                     | Inr d \<Rightarrow>
                         reply ev websocket ''pipelineDeleted'' result
                           ((log_calls calls st)\<lparr>pipelines := d\<rparr>)))))"

text \<open>
  \<^verbatim>\<open>[pipeline.get_status() for pipeline in pipelines.values()]\<close> of the
  \<^verbatim>\<open>getPipelines\<close> branch: the statuses, the registry with the objects after the calls,
  and the engine calls; or the exception that stopped it.
\<close>

fun statuses ::
  "env \<Rightarrow> GstreamerPipeline pydict
     \<Rightarrow> (exn + json list) \<times> GstreamerPipeline pydict \<times> engine_call list" where
  "statuses ev [] = (Inr [], [], [])"
| "statuses ev ((h, k, p) # rest) =
     (case get_status ev p of
        (Inl e, p1, calls) \<Rightarrow> (Inl e, (h, k, p1) # rest, calls)
      | (Inr status, p1, calls) \<Rightarrow>
          (case statuses ev rest of
             (r, rest1, calls1) \<Rightarrow>
               ((case r of Inl e \<Rightarrow> Inl e | Inr l \<Rightarrow> Inr (status # l)),
                (h, k, p1) # rest1, calls @ calls1)))"

definition get_pipelines :: "env \<Rightarrow> nat \<Rightarrow> state \<Rightarrow> state" where
  "get_pipelines ev websocket st =
     (case statuses ev (pipelines st) of
        (Inl e, d, calls) \<Rightarrow> (log_calls calls st)\<lparr>pipelines := d\<rparr>
      | (Inr pipelines_list, d, calls) \<Rightarrow>
          reply ev websocket ''pipelinesList'' (JObj [(''pipelines'', JList pipelines_list)])
            ((log_calls calls st)\<lparr>pipelines := d\<rparr>))"

text \<open>
  The body of the receive loop (lines 299 to 453) for one inbound message, given as the
  outcome of \<^verbatim>\<open>json.loads\<close>. Both \<^verbatim>\<open>except\<close> clauses log and go on to the next message;
  a message of an unknown type is passed over.
\<close>

definition handle_message :: "env \<Rightarrow> nat \<Rightarrow> exn + json \<Rightarrow> state \<Rightarrow> state" where
  "handle_message ev websocket loaded st =
     (case loaded of
        Inl e \<Rightarrow> st
      | Inr data \<Rightarrow>
          (case py_get data ''type'' JNull of
             Inl e \<Rightarrow> st
           | Inr message_type \<Rightarrow>
               (case py_get data ''payload'' (JObj []) of
                  Inl e \<Rightarrow> st
                | Inr payload \<Rightarrow>
                    if message_type = JStr ''ping'' then
                      st\<lparr>trace := trace st @
                           [Send websocket (JObj [(''type'', JStr ''pong''),
                                                  (''timestamp'', JInt (now_ms ev))])]\<rparr>
                    else if message_type = JStr ''createPipeline'' then
                      create_pipeline ev websocket payload st
                    else if message_type = JStr ''startPipeline'' then
                      start_pipeline ev websocket payload st
                    else if message_type = JStr ''stopPipeline'' then
                      stop_pipeline ev websocket payload st
                    else if message_type = JStr ''deletePipeline'' then
                      delete_pipeline ev websocket payload st
                    else if message_type = JStr ''getPipelines'' then
                      get_pipelines ev websocket st
                    else st)))"

section \<open>The telemetry loop\<close>

text \<open>
  \<^verbatim>\<open>send_stats_updates\<close> is one task of the event loop; the handlers of the connections
  are others. While the task is suspended in an \<^verbatim>\<open>await\<close> the other tasks run. The
  scheduler says which inbound messages their handlers process during a suspension that
  begins in a given state (a handler changes the registry before its own \<^verbatim>\<open>await\<close>, so
  it is one step). Connections opened or closed meanwhile are not modelled.

  When entries were added to or removed from a dict and its size is the same again,
  what its iterator does next is left to the implementation: it is the scheduler's
  \<open>dict_resume\<close>, given the number of items already yielded and the keys of the dict.
\<close>

datatype resumed = KeysChanged | Exhausted | Entry nat

record scheduler =
  others :: "state \<Rightarrow> (nat \<times> (exn + json)) list"
  dict_resume :: "nat \<Rightarrow> pykey list \<Rightarrow> resumed"








section \<open>What one telemetry round sends\<close>












section \<open>Sample inputs\<close>

text \<open>
  An environment in which every engine call succeeds and every send is delivered, one in
  which the sends to client 1 fail, one in which the status query fails, and a server
  with the pipeline \<^verbatim>\<open>p1\<close> registered and two clients connected. \<open>str_sample\<close> is \<^verbatim>\<open>str()\<close>
  on the values the examples meet.
\<close>

definition str_sample :: "json \<Rightarrow> string" where
  "str_sample v = (case v of JStr s \<Rightarrow> s | JInt i \<Rightarrow> ''1000'' | JNull \<Rightarrow> ''None'' | _ \<Rightarrow> ''?'')"

definition ev0 :: env where
  "ev0 = \<lparr> now_ms = 1000, py_str = str_sample, exn_str = (\<lambda>e. ''error''),
           send_result = (\<lambda>client m. None), sim_frames = (\<lambda>position_ns. (0, 0)),
           parse_launch = (\<lambda>s. Inr 7), set_name = (\<lambda>p n. None), get_bus = (\<lambda>p. Inr 8),
           add_watch = (\<lambda>bus. Inr 9), set_state = (\<lambda>p s. Inr SUCCESS),
           remove_watch = (\<lambda>bus w. None), get_state = (\<lambda>p. Inr PLAYING),
           query_position = (\<lambda>p. Inr (True, 0)) \<rparr>"

definition ev_send_fails :: env where
  "ev_send_fails =
     ev0\<lparr>send_result := (\<lambda>client m. if client = 1 then Some ConnectionClosed else None)\<rparr>"

definition ev_rejects :: env where
  "ev_rejects = ev0\<lparr>set_state := (\<lambda>p s. Inr FAILURE)\<rparr>"

definition videotestsrc :: json where
  "videotestsrc = JList [JObj [(''type'', JStr ''videotestsrc'')]]"

definition new_p1 :: GstreamerPipeline where
  "new_p1 = init (JStr ''p1'') (JStr ''Pipeline p1'') videotestsrc"

definition created_p1 :: json where
  "created_p1 = JObj [(''id'', JStr ''p1''), (''description'', JStr ''Pipeline p1''),
                      (''state'', JStr ''NULL''), (''elements'', videotestsrc)]"

definition old_p1 :: GstreamerPipeline where
  "old_p1 = \<lparr> id' = JStr ''p1'', description = JStr ''Pipeline p1'', elements = videotestsrc,
              pipeline = Some 1, stats = JObj [], error = None, bus_watch_id = Some 3 \<rparr>"

definition st_p1 :: state where
  "st_p1 = \<lparr> pipelines = [(KStr ''p1'', JStr ''p1'', old_p1)], clients = [1, 2], trace = [] \<rparr>"

definition st_no_clients :: state where
  "st_no_clients = \<lparr> pipelines = [(KStr ''p1'', JStr ''p1'', old_p1)], clients = [], trace = [] \<rparr>"

definition create_p1 :: json where
  "create_p1 = JObj [(''type'', JStr ''createPipeline''),
                     (''payload'', JObj [(''id'', JStr ''p1''),
                                         (''pipeline'', JObj [(''elements'', videotestsrc)])])]"

definition create_empty :: json where
  "create_empty = JObj [(''type'', JStr ''createPipeline''),
                        (''payload'', JObj [(''id'', JStr ''p2''),
                                            (''pipeline'', JObj [(''elements'', JList [])])])]"

definition start_p2 :: json where
  "start_p2 = JObj [(''type'', JStr ''startPipeline''), (''payload'', JObj [(''id'', JStr ''p2'')])]"

definition delete_p1 :: json where
  "delete_p1 = JObj [(''type'', JStr ''deletePipeline''), (''payload'', JObj [(''id'', JStr ''p1'')])]"

definition hello :: "(string \<times> json) list" where
  "hello = [(''type'', JStr ''pipelineStateChanged''), (''payload'', JObj [(''id'', JStr ''p1'')])]"

definition stats_p1 :: json where
  "stats_p1 = JObj [(''type'', JStr ''pipelineStats''),
                    (''payload'',
                     JObj [(''id'', JStr ''p1''),
                           (''stats'', JObj [(''bufferHealth'', JInt 80),
                                             (''bitrate'', JInt 2500000),
                                             (''framesReceived'', JInt 100),
                                             (''framesDropped'', JInt 0),
                                             (''latency'', JInt 150)])]),
                    (''timestamp'', JInt 1000)]"

text \<open>
  A scheduler under which no other task runs, and one under which, at every suspension
  while \<^verbatim>\<open>p1\<close> is registered, client 2 has \<^verbatim>\<open>p1\<close> deleted; a server with \<^verbatim>\<open>p1\<close> and \<^verbatim>\<open>p2\<close>
  registered.
\<close>

definition sc_idle :: scheduler where
  "sc_idle = \<lparr> others = (\<lambda>s. []), dict_resume = (\<lambda>yielded keys. KeysChanged) \<rparr>"

definition sc_delete :: scheduler where
  "sc_delete =
     \<lparr> others = (\<lambda>s. if map_of (pipelines s) (KStr ''p1'') = None then []
                       else [(2, Inr delete_p1)]),
       dict_resume = (\<lambda>yielded keys. KeysChanged) \<rparr>"

definition old_p2 :: GstreamerPipeline where
  "old_p2 = \<lparr> id' = JStr ''p2'', description = JStr ''Pipeline p2'', elements = videotestsrc,
              pipeline = Some 2, stats = JObj [], error = None, bus_watch_id = Some 4 \<rparr>"

definition st_two :: state where
  "st_two = \<lparr> pipelines = [(KStr ''p1'', JStr ''p1'', old_p1), (KStr ''p2'', JStr ''p2'', old_p2)],
              clients = [1, 2], trace = [] \<rparr>"

definition deleted_p1 :: json where
  "deleted_p1 = JObj [(''type'', JStr ''pipelineDeleted''),
                      (''payload'', JObj [(''id'', JStr ''p1''),
                                          (''message'', JStr ''Pipeline deleted'')]),
                      (''timestamp'', JInt 1000)]"

lemmas sample_defs = ev0_def ev_send_fails_def ev_rejects_def str_sample_def videotestsrc_def
  new_p1_def created_p1_def old_p1_def st_p1_def st_no_clients_def create_p1_def
  create_empty_def start_p2_def delete_p1_def hello_def stats_p1_def
  sc_idle_def sc_delete_def old_p2_def st_two_def deleted_p1_def

lemmas handler_defs = handle_message_def create_pipeline_def start_pipeline_def stop_pipeline_def
  delete_pipeline_def get_pipelines_def reply_def not_found_def lookup_pipeline_def put_back_def
  log_calls_def dict_contains_def dict_getitem_def dict_setitem_def dict_delitem_def has_key_def

section \<open>Dictionaries\<close>

lemma py_get_dict: "py_get d k a = Inr v \<Longrightarrow> \<exists>w. py_get d k1 b = Inr w"
  by (cases d) (auto split: option.splits)

lemma set_key_map_of: "map_of (set_key k v kvs) k = Some v"
  by (induction kvs) auto

lemma set_item_keys: "map_of d h \<noteq> None \<Longrightarrow> map fst (set_item h k v d) = map fst d"
  by (induction d) auto

lemma set_item_map_of_present:
  "map_of d h = Some (k0, v0) \<Longrightarrow> map_of (set_item h k v d) h = Some (k0, v)"
  by (induction d) auto

lemma map_of_filter_neq: "map_of (filter (\<lambda>item. fst item \<noteq> h) d) h = None"
  by (induction d) auto

lemma filter_set_item:
  "filter (\<lambda>item. fst item \<noteq> h) (set_item h k v d) = filter (\<lambda>item. fst item \<noteq> h) d"
  by (induction d) auto


section \<open>createPipeline\<close>

text \<open>
  Claim C1, as amended. The code has no \<^verbatim>\<open>already-exists\<close> error. A \<^verbatim>\<open>createPipeline\<close>
  command whose id is already in the registry, with a non-empty element list and a
  \<^verbatim>\<open>create()\<close> that succeeds, is answered with \<^verbatim>\<open>pipelineCreated\<close>, and the entry of that id
  now holds the new object: the existing one is replaced, no second entry is created (the
  keys and their order stay as they were), and the only engine calls are those of the
  new object's \<^verbatim>\<open>create()\<close>.
\<close>

theorem duplicate_create_overwrites:
  assumes "py_get data ''type'' JNull = Inr (JStr ''createPipeline'')"
    and "py_get data ''payload'' (JObj []) = Inr payload"
    and "py_get payload ''id'' (JStr (''pipeline-'' @ py_str ev (JInt (now_ms ev)))) = Inr pipeline_id"
    and "py_hash pipeline_id = Inr h"
    and "map_of (pipelines st) h = Some (k0, old)"
    and "py_get payload ''description'' (JStr (''Pipeline '' @ py_str ev pipeline_id)) = Inr descr"
    and "py_get payload ''pipeline'' (JObj []) = Inr pipeline_def"
    and "py_get pipeline_def ''elements'' (JList []) = Inr elems"
    and "truthy elems"
    and "create ev (init pipeline_id descr elems) = (result, p, calls)"
    and "\<not> has_key ''errorCode'' result"
  shows "handle_message ev websocket (Inr data) st =
           st\<lparr>pipelines := set_item h pipeline_id p (pipelines st),
               trace := trace st @ map Engine calls @
                 [Send websocket
                    (JObj [(''type'', JStr ''pipelineCreated''),
                           (''payload'', JObj [(''pipeline'', result)]),
                           (''timestamp'', JInt (now_ms ev))])]\<rparr>
         \<and> map_of (pipelines (handle_message ev websocket (Inr data) st)) h = Some (k0, p)
         \<and> map fst (pipelines (handle_message ev websocket (Inr data) st)) = map fst (pipelines st)"
proof -
  have e: "handle_message ev websocket (Inr data) st =
           st\<lparr>pipelines := set_item h pipeline_id p (pipelines st),
               trace := trace st @ map Engine calls @
                 [Send websocket
                    (JObj [(''type'', JStr ''pipelineCreated''),
                           (''payload'', JObj [(''pipeline'', result)]),
                           (''timestamp'', JInt (now_ms ev))])]\<rparr>"
    using assms
    by (simp add: handle_message_def create_pipeline_def reply_def log_calls_def dict_setitem_def)
  show ?thesis
    using assms(5) by (simp add: e set_item_map_of_present set_item_keys)
qed

text \<open>
  The amended statement at the sample server: \<^verbatim>\<open>p1\<close> is registered with engine object 1,
  and a second \<^verbatim>\<open>createPipeline\<close> for \<^verbatim>\<open>p1\<close> puts engine object 7 in its place.
\<close>

theorem duplicate_create_overwrites_witness:
  "map_of (pipelines st_p1) (KStr ''p1'') = Some (JStr ''p1'', old_p1)
   \<and> create ev0 new_p1 = (created_p1, new_p1\<lparr>pipeline := Some 7, bus_watch_id := Some 9\<rparr>,
        [ParseLaunch ''videotestsrc'', SetName 7 (JStr ''p1''), GetBus 7, AddWatch 8])
   \<and> \<not> has_key ''errorCode'' created_p1
   \<and> map_of (pipelines (handle_message ev0 1 (Inr create_p1) st_p1)) (KStr ''p1'') =
       Some (JStr ''p1'', new_p1\<lparr>pipeline := Some 7, bus_watch_id := Some 9\<rparr>)
   \<and> map fst (pipelines (handle_message ev0 1 (Inr create_p1) st_p1)) = [KStr ''p1'']"
proof -
  have c: "create ev0 (init (JStr ''p1'') (JStr ''Pipeline p1'') videotestsrc) =
             (created_p1, new_p1\<lparr>pipeline := Some 7, bus_watch_id := Some 9\<rparr>,
              [ParseLaunch ''videotestsrc'', SetName 7 (JStr ''p1''), GetBus 7, AddWatch 8])"
    by (simp add: sample_defs create_def init_def)
  have h: "\<not> has_key ''errorCode'' created_p1"
    by (simp add: sample_defs has_key_def)
  have m: "map_of (pipelines st_p1) (KStr ''p1'') = Some (JStr ''p1'', old_p1)"
    by (simp add: sample_defs)
  have t: "py_get create_p1 ''type'' JNull = Inr (JStr ''createPipeline'')"
    by (simp add: create_p1_def)
  have pl: "py_get create_p1 ''payload'' (JObj []) =
              Inr (JObj [(''id'', JStr ''p1''), (''pipeline'', JObj [(''elements'', videotestsrc)])])"
    by (simp add: create_p1_def)
  have i: "py_get (JObj [(''id'', JStr ''p1''), (''pipeline'', JObj [(''elements'', videotestsrc)])])
             ''id'' (JStr (''pipeline-'' @ py_str ev0 (JInt (now_ms ev0)))) = Inr (JStr ''p1'')"
    by simp
  have k: "py_hash (JStr ''p1'') = Inr (KStr ''p1'')"
    by simp
  have d: "py_get (JObj [(''id'', JStr ''p1''), (''pipeline'', JObj [(''elements'', videotestsrc)])])
             ''description'' (JStr (''Pipeline '' @ py_str ev0 (JStr ''p1''))) = Inr (JStr ''Pipeline p1'')"
    by (simp add: ev0_def str_sample_def)
  have pd: "py_get (JObj [(''id'', JStr ''p1''), (''pipeline'', JObj [(''elements'', videotestsrc)])])
              ''pipeline'' (JObj []) = Inr (JObj [(''elements'', videotestsrc)])"
    by simp
  have el: "py_get (JObj [(''elements'', videotestsrc)]) ''elements'' (JList []) = Inr videotestsrc"
    by simp
  have tr: "truthy videotestsrc"
    by (simp add: videotestsrc_def)
  from duplicate_create_overwrites [OF t pl i k m d pd el tr c h, of 1]
  have "map_of (pipelines (handle_message ev0 1 (Inr create_p1) st_p1)) (KStr ''p1'') =
          Some (JStr ''p1'', new_p1\<lparr>pipeline := Some 7, bus_watch_id := Some 9\<rparr>)
        \<and> map fst (pipelines (handle_message ev0 1 (Inr create_p1) st_p1)) = map fst (pipelines st_p1)"
    by blast
  then show ?thesis using c h m by (simp add: new_p1_def st_p1_def)
qed

text \<open>
  The claim as first stated fails at the sample server: the reply is \<^verbatim>\<open>pipelineCreated\<close>,
  not an error, and the registry is not the one before the command.
\<close>

theorem duplicate_create_counterexample:
  "handle_message ev0 1 (Inr create_p1) st_p1 =
     \<lparr> pipelines = [(KStr ''p1'', JStr ''p1'',
                      old_p1\<lparr>pipeline := Some 7, bus_watch_id := Some 9\<rparr>)],
       clients = [1, 2],
       trace = [Engine (ParseLaunch ''videotestsrc''), Engine (SetName 7 (JStr ''p1'')),
                Engine (GetBus 7), Engine (AddWatch 8),
                Send 1 (JObj [(''type'', JStr ''pipelineCreated''),
                              (''payload'', JObj [(''pipeline'', created_p1)]),
                              (''timestamp'', JInt 1000)])] \<rparr>
   \<and> pipelines (handle_message ev0 1 (Inr create_p1) st_p1) \<noteq> pipelines st_p1"
  by (simp add: sample_defs handler_defs create_def init_def creation_failed_def)

text \<open>
  Claim C5. A \<^verbatim>\<open>createPipeline\<close> command whose element list is empty is answered with a
  \<^verbatim>\<open>pipelineError\<close> of code \<^verbatim>\<open>invalid-pipeline\<close>; that send is the only effect: no engine
  call is made and the registry is the one before the command.
\<close>

theorem empty_elements_rejected:
  assumes "py_get data ''type'' JNull = Inr (JStr ''createPipeline'')"
    and "py_get data ''payload'' (JObj []) = Inr payload"
    and "py_get payload ''id'' (JStr (''pipeline-'' @ py_str ev (JInt (now_ms ev)))) = Inr pipeline_id"
    and "py_get payload ''pipeline'' (JObj []) = Inr pipeline_def"
    and "py_get pipeline_def ''elements'' (JList []) = Inr (JList [])"
  shows "handle_message ev websocket (Inr data) st =
           st\<lparr>trace := trace st @
                [Send websocket
                   (JObj [(''type'', JStr ''pipelineError''),
                          (''payload'', JObj [(''id'', pipeline_id),
                                              (''errorCode'', JStr ''invalid-pipeline''),
                                              (''errorMessage'', JStr ''No pipeline elements provided'')]),
                          (''timestamp'', JInt (now_ms ev))])]\<rparr>"
proof -
  obtain descr where
    "py_get payload ''description'' (JStr (''Pipeline '' @ py_str ev pipeline_id)) = Inr descr"
    using py_get_dict [OF assms(3)] by blast
  then show ?thesis using assms
    by (simp add: handle_message_def create_pipeline_def reply_def)
qed

theorem empty_elements_rejected_witness:
  "handle_message ev0 1 (Inr create_empty) st_p1 =
     st_p1\<lparr>trace :=
       [Send 1 (JObj [(''type'', JStr ''pipelineError''),
                      (''payload'', JObj [(''id'', JStr ''p2''),
                                          (''errorCode'', JStr ''invalid-pipeline''),
                                          (''errorMessage'', JStr ''No pipeline elements provided'')]),
                      (''timestamp'', JInt 1000)])]\<rparr>"
proof -
  have t: "py_get create_empty ''type'' JNull = Inr (JStr ''createPipeline'')"
    by (simp add: create_empty_def)
  have pl: "py_get create_empty ''payload'' (JObj []) =
              Inr (JObj [(''id'', JStr ''p2''), (''pipeline'', JObj [(''elements'', JList [])])])"
    by (simp add: create_empty_def)
  have i: "py_get (JObj [(''id'', JStr ''p2''), (''pipeline'', JObj [(''elements'', JList [])])])
             ''id'' (JStr (''pipeline-'' @ py_str ev0 (JInt (now_ms ev0)))) = Inr (JStr ''p2'')"
    by simp
  have pd: "py_get (JObj [(''id'', JStr ''p2''), (''pipeline'', JObj [(''elements'', JList [])])])
              ''pipeline'' (JObj []) = Inr (JObj [(''elements'', JList [])])"
    by simp
  have el: "py_get (JObj [(''elements'', JList [])]) ''elements'' (JList []) = Inr (JList [])"
    by simp
  from empty_elements_rejected [OF t pl i pd el, of 1 st_p1]
  show ?thesis by (simp add: ev0_def st_p1_def)
qed

section \<open>GstreamerPipeline.create and stop\<close>

text \<open>
  Claim C2. When \<^verbatim>\<open>create()\<close> succeeds (its result has no \<^verbatim>\<open>errorCode\<close>), the returned
  snapshot reports state NULL, and the bus watch has been added before the return: the
  last engine call is \<^verbatim>\<open>add_watch\<close> on the bus of the new engine object, and the object
  holds the watch identifier the engine returned.
\<close>

theorem create_success_subscribed:
  assumes "create ev self = (result, self1, calls)"
    and "\<not> has_key ''errorCode'' result"
  shows "subscript result ''state'' = Inr (JStr ''NULL'') \<and>
         (\<exists>s p bus w. build_pipeline_string ev (elements self) = Inr s \<and>
            parse_launch ev s = Inr p \<and> get_bus ev p = Inr bus \<and> add_watch ev bus = Inr w \<and>
            pipeline self1 = Some p \<and> bus_watch_id self1 = Some w \<and>
            calls = [ParseLaunch s, SetName p (id' self), GetBus p, AddWatch bus])"
  using assms
  by (auto simp: create_def creation_failed_def has_key_def Let_def
           split: sum.splits option.splits)

theorem create_success_subscribed_witness:
  "create ev0 new_p1 = (created_p1, new_p1\<lparr>pipeline := Some 7, bus_watch_id := Some 9\<rparr>,
        [ParseLaunch ''videotestsrc'', SetName 7 (JStr ''p1''), GetBus 7, AddWatch 8])
   \<and> \<not> has_key ''errorCode'' created_p1
   \<and> subscript created_p1 ''state'' = Inr (JStr ''NULL'')"
proof -
  have c: "create ev0 new_p1 =
             (created_p1, new_p1\<lparr>pipeline := Some 7, bus_watch_id := Some 9\<rparr>,
              [ParseLaunch ''videotestsrc'', SetName 7 (JStr ''p1''), GetBus 7, AddWatch 8])"
    by (simp add: sample_defs create_def init_def)
  have h: "\<not> has_key ''errorCode'' created_p1"
    by (simp add: sample_defs has_key_def)
  from create_success_subscribed [OF c h] c h show ?thesis by simp
qed

text \<open>
  Claim C9. On an object with an engine object, \<^verbatim>\<open>stop()\<close> makes one engine call, the
  request for PAUSED (never NULL). It fails with \<^verbatim>\<open>not-created\<close> when there is no engine
  object, with \<^verbatim>\<open>stop-failed\<close> when the engine answers FAILURE, and on any other answer
  returns a snapshot whose state is PAUSED.
\<close>

theorem stop_contract:
  "(pipeline self = None \<longrightarrow>
      stop ev self = (Inr (JObj [(''id'', id' self), (''errorCode'', JStr ''not-created''),
                                 (''errorMessage'', JStr ''Pipeline not created'')]), [])) \<and>
   (\<forall>p. pipeline self = Some p \<longrightarrow>
      snd (stop ev self) = [SetState p PAUSED] \<and>
      (set_state ev p PAUSED = Inr FAILURE \<longrightarrow>
         fst (stop ev self) = Inr (JObj [(''id'', id' self), (''errorCode'', JStr ''stop-failed''),
                                         (''errorMessage'', JStr ''Failed to pause pipeline'')])) \<and>
      (\<forall>ret. set_state ev p PAUSED = Inr ret \<and> ret \<noteq> FAILURE \<longrightarrow>
         fst (stop ev self) = Inr (JObj [(''id'', id' self), (''state'', JStr ''PAUSED''),
                                         (''message'', JStr ''Pipeline paused'')])))"
  by (auto simp: stop_def split: sum.splits option.splits)

theorem stop_contract_witness:
  "pipeline new_p1 = None
   \<and> stop ev0 new_p1 = (Inr (JObj [(''id'', JStr ''p1''), (''errorCode'', JStr ''not-created''),
                                    (''errorMessage'', JStr ''Pipeline not created'')]), [])
   \<and> pipeline old_p1 = Some 1 \<and> set_state ev0 1 PAUSED = Inr SUCCESS
   \<and> stop ev0 old_p1 = (Inr (JObj [(''id'', JStr ''p1''), (''state'', JStr ''PAUSED''),
                                    (''message'', JStr ''Pipeline paused'')]), [SetState 1 PAUSED])
   \<and> set_state ev_rejects 1 PAUSED = Inr FAILURE
   \<and> stop ev_rejects old_p1 =
       (Inr (JObj [(''id'', JStr ''p1''), (''errorCode'', JStr ''stop-failed''),
                   (''errorMessage'', JStr ''Failed to pause pipeline'')]), [SetState 1 PAUSED])"
  using stop_contract [of new_p1 ev0] stop_contract [of old_p1 ev0] stop_contract [of old_p1 ev_rejects]
  by (simp add: sample_defs init_def stop_def)

section \<open>Commands on a pipeline id\<close>

text \<open>
  Claim C6. For a pipeline id that is not in the registry, each of \<^verbatim>\<open>startPipeline\<close>,
  \<^verbatim>\<open>stopPipeline\<close> and \<^verbatim>\<open>deletePipeline\<close> is answered with a \<^verbatim>\<open>pipelineError\<close> of code
  \<^verbatim>\<open>not-found\<close>, and that send is the only effect: the registry is unchanged.
\<close>

theorem unknown_id_not_found:
  assumes "message_type \<in> {JStr ''startPipeline'', JStr ''stopPipeline'', JStr ''deletePipeline''}"
    and "py_get data ''type'' JNull = Inr message_type"
    and "py_get data ''payload'' (JObj []) = Inr payload"
    and "py_get payload ''id'' JNull = Inr pipeline_id"
    and "py_hash pipeline_id = Inr h"
    and "map_of (pipelines st) h = None"
  shows "handle_message ev websocket (Inr data) st =
           st\<lparr>trace := trace st @
                [Send websocket
                   (JObj [(''type'', JStr ''pipelineError''),
                          (''payload'', JObj [(''id'', pipeline_id),
                                              (''errorCode'', JStr ''not-found''),
                                              (''errorMessage'', JStr ''Pipeline not found'')]),
                          (''timestamp'', JInt (now_ms ev))])]\<rparr>"
proof -
  have l: "lookup_pipeline (pipelines st) pipeline_id = Inr None"
    using assms(5,6) by (simp add: lookup_pipeline_def dict_contains_def)
  show ?thesis using assms(1-4) l
    by (auto simp: handle_message_def start_pipeline_def stop_pipeline_def delete_pipeline_def
          reply_def not_found_def)
qed

theorem unknown_id_not_found_witness:
  "map_of (pipelines st_p1) (KStr ''p2'') = None
   \<and> handle_message ev0 1 (Inr start_p2) st_p1 =
     st_p1\<lparr>trace :=
       [Send 1 (JObj [(''type'', JStr ''pipelineError''),
                      (''payload'', JObj [(''id'', JStr ''p2''),
                                          (''errorCode'', JStr ''not-found''),
                                          (''errorMessage'', JStr ''Pipeline not found'')]),
                      (''timestamp'', JInt 1000)])]\<rparr>"
proof -
  have m: "JStr ''startPipeline'' \<in> {JStr ''startPipeline'', JStr ''stopPipeline'', JStr ''deletePipeline''}"
    by simp
  have t: "py_get start_p2 ''type'' JNull = Inr (JStr ''startPipeline'')"
    by (simp add: start_p2_def)
  have pl: "py_get start_p2 ''payload'' (JObj []) = Inr (JObj [(''id'', JStr ''p2'')])"
    by (simp add: start_p2_def)
  have i: "py_get (JObj [(''id'', JStr ''p2'')]) ''id'' JNull = Inr (JStr ''p2'')"
    by simp
  have k: "py_hash (JStr ''p2'') = Inr (KStr ''p2'')"
    by simp
  have a: "map_of (pipelines st_p1) (KStr ''p2'') = None"
    by (simp add: st_p1_def)
  from unknown_id_not_found [OF m t pl i k a, of ev0 1] a
  show ?thesis by (simp add: ev0_def st_p1_def)
qed

lemma delete_result:
  "delete ev p = (Inr result, p1, calls) \<Longrightarrow>
     result = deleted p \<and> pipeline p1 = None \<and> id' p1 = id' p"
  by (auto simp: delete_def split: option.splits sum.splits if_splits)

text \<open>
  Claim C4, as amended. For a non-empty pipeline id (one that Python takes as true) in
  the registry whose object's \<^verbatim>\<open>delete()\<close> returns, the first \<^verbatim>\<open>deletePipeline\<close> is
  answered with \<^verbatim>\<open>pipelineDeleted\<close> carrying the id and the message \<^verbatim>\<open>Pipeline deleted\<close>
  (the payload has no state field) and removes the entry; a second \<^verbatim>\<open>deletePipeline\<close>
  for the same id right after it is answered with a \<^verbatim>\<open>pipelineError\<close> of code
  \<^verbatim>\<open>not-found\<close> and changes nothing else. On the object itself \<^verbatim>\<open>delete()\<close> is
  idempotent: a second call returns the same result, makes no engine call and does not
  raise.
\<close>

theorem delete_then_not_found:
  assumes "py_get data ''type'' JNull = Inr (JStr ''deletePipeline'')"
    and "py_get data ''payload'' (JObj []) = Inr payload"
    and "py_get payload ''id'' JNull = Inr pipeline_id"
    and "truthy pipeline_id"
    and "py_hash pipeline_id = Inr h"
    and "map_of (pipelines st) h = Some (k0, p)"
    and "delete ev1 p = (Inr result, p1, calls)"
  shows "handle_message ev1 websocket (Inr data) st =
           st\<lparr>pipelines := filter (\<lambda>item. fst item \<noteq> h) (pipelines st),
               trace := trace st @ map Engine calls @
                 [Send websocket
                    (JObj [(''type'', JStr ''pipelineDeleted''),
                           (''payload'', JObj [(''id'', id' p),
                                               (''message'', JStr ''Pipeline deleted'')]),
                           (''timestamp'', JInt (now_ms ev1))])]\<rparr>
         \<and> handle_message ev2 websocket (Inr data) (handle_message ev1 websocket (Inr data) st) =
             (handle_message ev1 websocket (Inr data) st)
               \<lparr>trace := trace (handle_message ev1 websocket (Inr data) st) @
                 [Send websocket
                    (JObj [(''type'', JStr ''pipelineError''),
                           (''payload'', JObj [(''id'', pipeline_id),
                                               (''errorCode'', JStr ''not-found''),
                                               (''errorMessage'', JStr ''Pipeline not found'')]),
                           (''timestamp'', JInt (now_ms ev2))])]\<rparr>
         \<and> delete ev2 p1 = (Inr result, p1, [])"
proof -
  note r = delete_result [OF assms(7)]
  have l: "lookup_pipeline (pipelines st) pipeline_id = Inr (Some p)"
    using assms(4,5,6) by (simp add: lookup_pipeline_def dict_contains_def dict_getitem_def)
  have pb: "put_back (pipelines st) pipeline_id p1 = set_item h pipeline_id p1 (pipelines st)"
    using assms(5) by (simp add: put_back_def dict_setitem_def)
  have mo: "map_of (set_item h pipeline_id p1 (pipelines st)) h = Some (k0, p1)"
    using assms(6) by (rule set_item_map_of_present)
  have e1: "handle_message ev1 websocket (Inr data) st =
           st\<lparr>pipelines := filter (\<lambda>item. fst item \<noteq> h) (pipelines st),
               trace := trace st @ map Engine calls @
                 [Send websocket
                    (JObj [(''type'', JStr ''pipelineDeleted''),
                           (''payload'', JObj [(''id'', id' p),
                                               (''message'', JStr ''Pipeline deleted'')]),
                           (''timestamp'', JInt (now_ms ev1))])]\<rparr>"
    using assms(1,2,3,5,7) l r
    by (simp add: handle_message_def delete_pipeline_def pb dict_delitem_def mo filter_set_item
          reply_def log_calls_def deleted_def)
  have l2: "lookup_pipeline (pipelines (handle_message ev1 websocket (Inr data) st)) pipeline_id
              = Inr None"
    using assms(5) by (simp add: e1 lookup_pipeline_def dict_contains_def map_of_filter_neq)
  have e2: "handle_message ev2 websocket (Inr data) (handle_message ev1 websocket (Inr data) st) =
             (handle_message ev1 websocket (Inr data) st)
               \<lparr>trace := trace (handle_message ev1 websocket (Inr data) st) @
                 [Send websocket
                    (JObj [(''type'', JStr ''pipelineError''),
                           (''payload'', JObj [(''id'', pipeline_id),
                                               (''errorCode'', JStr ''not-found''),
                                               (''errorMessage'', JStr ''Pipeline not found'')]),
                           (''timestamp'', JInt (now_ms ev2))])]\<rparr>"
    using assms(1,2,3) l2
    by (simp add: handle_message_def delete_pipeline_def reply_def not_found_def)
  have e3: "delete ev2 p1 = (Inr result, p1, [])"
    using r by (simp add: delete_def deleted_def)
  show ?thesis using e1 e2 e3 by blast
qed

theorem delete_then_not_found_witness:
  "map_of (pipelines st_p1) (KStr ''p1'') = Some (JStr ''p1'', old_p1)
   \<and> delete ev0 old_p1 =
       (Inr (deleted old_p1), old_p1\<lparr>bus_watch_id := None, pipeline := None\<rparr>,
        [SetState 1 NULL, GetBus 1, RemoveWatch 8 3])
   \<and> pipelines (handle_message ev0 1 (Inr delete_p1) st_p1) = []
   \<and> delete ev_rejects (old_p1\<lparr>bus_watch_id := None, pipeline := None\<rparr>) =
       (Inr (deleted old_p1), old_p1\<lparr>bus_watch_id := None, pipeline := None\<rparr>, [])"
proof -
  have t: "py_get delete_p1 ''type'' JNull = Inr (JStr ''deletePipeline'')"
    by (simp add: delete_p1_def)
  have pl: "py_get delete_p1 ''payload'' (JObj []) = Inr (JObj [(''id'', JStr ''p1'')])"
    by (simp add: delete_p1_def)
  have i: "py_get (JObj [(''id'', JStr ''p1'')]) ''id'' JNull = Inr (JStr ''p1'')"
    by simp
  have tr: "truthy (JStr ''p1'')"
    by simp
  have k: "py_hash (JStr ''p1'') = Inr (KStr ''p1'')"
    by simp
  have m: "map_of (pipelines st_p1) (KStr ''p1'') = Some (JStr ''p1'', old_p1)"
    by (simp add: st_p1_def)
  have d: "delete ev0 old_p1 =
             (Inr (deleted old_p1), old_p1\<lparr>bus_watch_id := None, pipeline := None\<rparr>,
              [SetState 1 NULL, GetBus 1, RemoveWatch 8 3])"
    by (simp add: delete_def ev0_def old_p1_def)
  from delete_then_not_found [OF t pl i tr k m d, of 1 ev_rejects] m d
  show ?thesis by (simp add: st_p1_def)
qed

text \<open>
  The claim as first stated fails at the sample server: of two \<^verbatim>\<open>deletePipeline\<close> commands
  for \<^verbatim>\<open>p1\<close> in a row the first is answered with \<^verbatim>\<open>pipelineDeleted\<close> and the second with an
  error.
\<close>

theorem delete_twice_counterexample:
  "handle_message ev0 1 (Inr delete_p1) (handle_message ev0 1 (Inr delete_p1) st_p1) =
     \<lparr> pipelines = [],
       clients = [1, 2],
       trace = [Engine (SetState 1 NULL), Engine (GetBus 1), Engine (RemoveWatch 8 3),
                Send 1 (JObj [(''type'', JStr ''pipelineDeleted''),
                              (''payload'', JObj [(''id'', JStr ''p1''),
                                                  (''message'', JStr ''Pipeline deleted'')]),
                              (''timestamp'', JInt 1000)]),
                Send 1 (JObj [(''type'', JStr ''pipelineError''),
                              (''payload'', JObj [(''id'', JStr ''p1''),
                                                  (''errorCode'', JStr ''not-found''),
                                                  (''errorMessage'', JStr ''Pipeline not found'')]),
                              (''timestamp'', JInt 1000)])] \<rparr>"
  by (simp add: sample_defs handler_defs delete_def deleted_def)

section \<open>Broadcast\<close>

text \<open>
  Claim C3, as amended. For every engine ERROR message, in whatever thread it is
  called, \<^verbatim>\<open>bus_callback\<close> records the engine's message on the pipeline object and creates
  the broadcast of a \<^verbatim>\<open>pipelineError\<close> message whose error code is \<^verbatim>\<open>gst-error\<close> and whose
  payload carries the pipeline id, the engine's message as \<^verbatim>\<open>errorMessage\<close> and the debug
  details as \<^verbatim>\<open>details\<close>; that broadcast, when it is run, sends the message with its
  timestamp to every connected client and does not raise. Whether the broadcast is
  handed to the event loop is not part of the statement.
\<close>

theorem engine_error_broadcast:
  "bus_callback t self (ERROR err_message debug) =
     (hand_over t,
      self\<lparr>error := Some err_message\<rparr>,
      Some [(''type'', JStr ''pipelineError''),
            (''payload'', JObj [(''id'', id' self),
                                (''errorCode'', JStr ''gst-error''),
                                (''errorMessage'', JStr err_message),
                                (''details'', debug)])])
   \<and> fst (broadcast_message ev
            [(''type'', JStr ''pipelineError''),
             (''payload'', JObj [(''id'', id' self),
                                 (''errorCode'', JStr ''gst-error''),
                                 (''errorMessage'', JStr err_message),
                                 (''details'', debug)])] st) = Inr ()
   \<and> snd (snd (broadcast_message ev
            [(''type'', JStr ''pipelineError''),
             (''payload'', JObj [(''id'', id' self),
                                 (''errorCode'', JStr ''gst-error''),
                                 (''errorMessage'', JStr err_message),
                                 (''details'', debug)])] st)) =
       st\<lparr>trace := trace st @
           map (\<lambda>client. Send client
                  (JObj [(''type'', JStr ''pipelineError''),
                         (''payload'', JObj [(''id'', id' self),
                                             (''errorCode'', JStr ''gst-error''),
                                             (''errorMessage'', JStr err_message),
                                             (''details'', debug)]),
                         (''timestamp'', JInt (now_ms ev))]))
               (clients st)\<rparr>"
  by (simp add: bus_callback_def broadcast_message_def gather_def Let_def)

text \<open>
  The claim as first stated fails at the sample pipeline: the error code of the message
  created for the broadcast is \<^verbatim>\<open>gst-error\<close>, which is not \<^verbatim>\<open>engine-error\<close>.
\<close>

theorem engine_error_counterexample:
  "bus_callback GLibThread old_p1 (ERROR ''no signal'' (JStr ''src0'')) =
     (Inl RuntimeError,
      old_p1\<lparr>error := Some ''no signal''\<rparr>,
      Some [(''type'', JStr ''pipelineError''),
            (''payload'', JObj [(''id'', JStr ''p1''),
                                (''errorCode'', JStr ''gst-error''),
                                (''errorMessage'', JStr ''no signal''),
                                (''details'', JStr ''src0'')])])
   \<and> JStr ''gst-error'' \<noteq> JStr ''engine-error''"
  by (simp add: bus_callback_def hand_over_def get_event_loop_def old_p1_def)

text \<open>
  When the engine posts an ERROR on the bus of a registered pipeline, the callback runs
  in the thread of the GLib main loop, where asking for the event loop raises: the error
  is recorded on the registered object, and no broadcast is handed to the event loop.
\<close>

lemma engine_error_not_handed_over:
  "map_of (pipelines st) h = Some (k0, self) \<Longrightarrow>
     on_bus_message h (ERROR err_message debug) st =
       (Some (Inl RuntimeError), None,
        st\<lparr>pipelines := set_item h k0 (self\<lparr>error := Some err_message\<rparr>) (pipelines st)\<rparr>)"
  by (simp add: on_bus_message_def bus_callback_def hand_over_def get_event_loop_def)

text \<open>
  Claim C7. With at least one client connected, \<^verbatim>\<open>broadcast_message\<close> sends the encoded
  message to every client whatever the outcome of the other sends, and never raises: the
  exceptions of the sends stay among the gathered results.
\<close>

theorem broadcast_isolation:
  assumes "clients st \<noteq> []"
  shows "\<exists>m1 st1. broadcast_message ev message st = (Inr (), m1, st1) \<and>
           m1 = set_key ''timestamp'' (JInt (now_ms ev)) message \<and>
           trace st1 = trace st @ map (\<lambda>client. Send client (JObj m1)) (clients st) \<and>
           (\<forall>client \<in> set (clients st). Send client (JObj m1) \<in> set (trace st1)) \<and>
           clients st1 = clients st \<and> pipelines st1 = pipelines st"
  using assms by (simp add: broadcast_message_def gather_def Let_def)

theorem broadcast_isolation_witness:
  "clients st_p1 \<noteq> []
   \<and> send_result ev_send_fails 1 (JObj (hello @ [(''timestamp'', JInt 1000)])) = Some ConnectionClosed
   \<and> broadcast_message ev_send_fails hello st_p1 =
       (Inr (), hello @ [(''timestamp'', JInt 1000)],
        st_p1\<lparr>trace := [Send 1 (JObj (hello @ [(''timestamp'', JInt 1000)])),
                         Send 2 (JObj (hello @ [(''timestamp'', JInt 1000)]))]\<rparr>)"
proof -
  have c: "clients st_p1 \<noteq> []"
    by (simp add: st_p1_def)
  from broadcast_isolation [OF c, of ev_send_fails hello] c
  show ?thesis
    by (simp add: sample_defs broadcast_message_def gather_def Let_def)
qed

text \<open>
  Claim C10. With no client connected \<^verbatim>\<open>broadcast_message\<close> does nothing: nothing is sent,
  the state is the one before, and the message is returned as it was given, without a
  timestamp being attached. With a client connected the message carries the timestamp of
  the clock.
\<close>

theorem broadcast_no_clients:
  "(clients st = [] \<longrightarrow> broadcast_message ev message st = (Inr (), message, st)) \<and>
   (clients st \<noteq> [] \<longrightarrow>
      map_of (fst (snd (broadcast_message ev message st))) ''timestamp'' = Some (JInt (now_ms ev)))"
  by (simp add: broadcast_message_def gather_def Let_def set_key_map_of)

theorem broadcast_no_clients_witness:
  "clients st_no_clients = []
   \<and> broadcast_message ev0 hello st_no_clients = (Inr (), hello, st_no_clients)
   \<and> map_of hello ''timestamp'' = None
   \<and> clients st_p1 \<noteq> []
   \<and> map_of (fst (snd (broadcast_message ev0 hello st_p1))) ''timestamp'' = Some (JInt 1000)"
  using broadcast_no_clients [of st_no_clients ev0 hello] broadcast_no_clients [of st_p1 ev0 hello]
  by (simp add: st_no_clients_def st_p1_def hello_def ev0_def)

section \<open>Telemetry\<close>














end
